theory Spec2Isabelle
  imports Main
begin

section \<open>The login form (LoginForm)\<close>

text \<open>
  Strings are lists of characters; a character stands for one code unit of the source's
  strings. The three accented letters of the source's literals are written by their code
  (\<open>0xE1\<close>, \<open>0xF3\<close>), all other text is ASCII.
\<close>

definition a_acute :: char where
  "a_acute = CHR 0xE1"

definition o_acute :: char where
  "o_acute = CHR 0xF3"

subsection \<open>Form payload and schema validation\<close>

text \<open>\<open>LoginFormData\<close>: the payload inferred from \<open>loginSchema\<close>, two strings.\<close>

record LoginFormData =
  usuario :: string
  clave :: string

text \<open>\<open>formState.errors\<close>: at most one message per field.\<close>

record FieldErrors =
  usuario_error :: "string option"
  clave_error :: "string option"

text \<open>
  \<open>z.string().min(n, message)\<close> on a string value: the value is rejected with
  \<open>message\<close> when it has fewer than \<open>n\<close> code units.
\<close>

definition z_string_min :: "nat \<Rightarrow> string \<Rightarrow> string \<Rightarrow> string option" where
  "z_string_min n message v = (if length v < n then Some message else None)"

definition loginSchema :: "LoginFormData \<Rightarrow> FieldErrors" where
  "loginSchema data =
     \<lparr>usuario_error = z_string_min 1 ''Usuario requerido'' (usuario data),
      clave_error = z_string_min 1 ''Clave requerida'' (clave data)\<rparr>"

definition no_errors :: FieldErrors where
  "no_errors = \<lparr>usuario_error = None, clave_error = None\<rparr>"

subsection \<open>Component state and the effects of the submit handler\<close>

text \<open>The four \<open>useState\<close> cells of the component.\<close>

record LoginFormState =
  showPassword :: bool
  authError :: string
  loading :: bool
  showForgotTooltip :: bool

datatype level = Info | Warn | Debug | Error

text \<open>The structured payload handed to the logger, one constructor per call site.\<close>

datatype payload =
    NoPayload
  | UsuarioPayload string
  | RutPayload string string
  | ErrorPayload string

text \<open>
  What the handler does, statement by statement: a logger call, a state setter, a call of
  the RUT validator, a call of the authentication collaborator.
\<close>

datatype effect =
    Logger level string string payload
  | SetLoading bool
  | SetAuthError string
  | ValidarRUT string
  | Login string string

text \<open>
  How the awaited \<open>login\<close> call settles: it resolves to a boolean or it throws (the error
  is kept by its text). A call that never settles produces no outcome at all.
\<close>

datatype outcome = Resolves bool | Throws string

text \<open>Only the two setters change the component state.\<close>

fun perform :: "effect \<Rightarrow> 'a LoginFormState_scheme \<Rightarrow> 'a LoginFormState_scheme" where
  "perform (SetLoading b) s = s\<lparr>loading := b\<rparr>"
| "perform (SetAuthError m) s = s\<lparr>authError := m\<rparr>"
| "perform (Logger l scope m p) s = s"
| "perform (ValidarRUT u) s = s"
| "perform (Login u p) s = s"

definition run :: "effect list \<Rightarrow> 'a LoginFormState_scheme \<Rightarrow> 'a LoginFormState_scheme" where
  "run es s = fold perform es s"

text \<open>
  \<open>validarRUT\<close> lives in \<open>lib/validations\<close>, not among the source files modelled here; the handler
  is modelled for any validator, a function from the candidate string to the pair
  \<open>(valido, mensaje)\<close>.
\<close>

type_synonym validator = "string \<Rightarrow> bool \<times> string"

text \<open>Where the handler stands after its synchronous part.\<close>

datatype suspension = Returned | AwaitingLogin

text \<open>
  \<open>onSubmit\<close> up to its first suspension point: everything before \<open>await login(...)\<close>,
  the call of \<open>login\<close> included, or the whole body when the RUT check fails.
\<close>

definition onSubmit_start :: "validator \<Rightarrow> LoginFormData \<Rightarrow> effect list \<times> suspension" where
  "onSubmit_start validarRUT data =
     (let prologue =
            [Logger Info ''LoginForm'' ''Intento de login iniciado'' (UsuarioPayload (usuario data)),
             SetLoading True,
             SetAuthError '''',
             ValidarRUT (usuario data)]
      in case validarRUT (usuario data) of
           (valido, mensaje) \<Rightarrow>
             if \<not> valido then
               (prologue @
                [Logger Warn ''LoginForm'' (''RUT inv'' @ [a_acute] @ ''lido'')
                   (RutPayload (usuario data) mensaje),
                 SetAuthError (''RUT inv'' @ [a_acute] @ ''lido: '' @ mensaje),
                 SetLoading False],
                Returned)
             else
               (prologue @
                [Logger Debug ''LoginForm'' (''Llamando funci'' @ [o_acute] @ ''n login del store'')
                   NoPayload,
                 Login (usuario data) (clave data)],
                AwaitingLogin))"

text \<open>
  \<open>onSubmit\<close> after the awaited call has settled: the rest of the \<open>try\<close> block or the
  \<open>catch\<close> block, then the \<open>finally\<close> block.
\<close>

definition onSubmit_resume :: "outcome \<Rightarrow> effect list" where
  "onSubmit_resume out =
     (case out of
        Resolves success \<Rightarrow>
          if success then [Logger Info ''LoginForm'' ''Login exitoso'' NoPayload]
          else [Logger Warn ''LoginForm'' ''Login fallido - credenciales incorrectas'' NoPayload,
                SetAuthError ''Usuario o clave incorrectos'']
      | Throws e \<Rightarrow>
          [Logger Error ''LoginForm'' ''Error durante el login'' (ErrorPayload e),
           SetAuthError (''Error al iniciar sesi'' @ [o_acute] @ ''n'')])
     @ [SetLoading False]"

text \<open>
  The whole handler for a \<open>login\<close> that settles: \<open>login u p\<close> is the outcome of the call
  with these arguments.
\<close>

definition onSubmit :: "validator \<Rightarrow> (string \<Rightarrow> string \<Rightarrow> outcome) \<Rightarrow> LoginFormData \<Rightarrow> effect list" where
  "onSubmit validarRUT login data =
     (case onSubmit_start validarRUT data of
        (es, Returned) \<Rightarrow> es
      | (es, AwaitingLogin) \<Rightarrow> es @ onSubmit_resume (login (usuario data) (clave data)))"

text \<open>The calls of the authentication collaborator among a list of effects.\<close>

fun is_Login :: "effect \<Rightarrow> bool" where
  "is_Login (Login u p) = True"
| "is_Login _ = False"

definition login_calls :: "effect list \<Rightarrow> effect list" where
  "login_calls es = filter is_Login es"

text \<open>The error banner: rendered only when \<open>authError\<close> is a non-empty string.\<close>

definition banner :: "'a LoginFormState_scheme \<Rightarrow> string option" where
  "banner s = (if authError s = '''' then None else Some (authError s))"

text \<open>
  A stand-in for the validator parameter, used to run the model on concrete inputs: it
  accepts one of the test users listed on the login screen and rejects everything else.
\<close>

definition sample_validarRUT :: validator where
  "sample_validarRUT rut =
     (if rut = ''11.111.111-1'' then (True, ''RUT ok'') else (False, ''Formato incorrecto''))"

subsection \<open>The form as a whole\<close>

text \<open>
  Modelled from the spec: the \<open>Button\<close> component (\<open>ui/Button\<close>) is not among the source
  files; the form passes it \<open>loading\<close>. The spec says of the submitting state that it
  "disables interaction, shows a loading affordance" and that "while pending, the submit
  control is disabled": the control is disabled, and shows its loading affordance, exactly
  when its \<open>loading\<close> property is true.
\<close>

record ButtonView =
  disabled :: bool
  spinner :: bool

definition Button :: "bool \<Rightarrow> ButtonView" where
  "Button loading_prop = \<lparr>disabled = loading_prop, spinner = loading_prop\<rparr>"

text \<open>
  The form. A state setter does not change the page: it changes the value the next
  rendering will use. So the form holds the component state twice: as the setters have
  left it, and as of the last rendering (the four \<open>rendered\<close> fields), which is what the
  page shows, what the submit control receives as \<open>loading\<close>, and what the handlers
  written in the page close over. It also holds the current values of the two
  registered inputs, the errors kept by the form library, whether a submission has run
  to its end (from then on the library re-validates a field when it changes), the number
  of \<open>onSubmit\<close> invocations suspended at \<open>await login(...)\<close>, and every effect
  performed so far, in order.
\<close>

record LoginForm = LoginFormState +
  rendered_showPassword :: bool
  rendered_authError :: string
  rendered_loading :: bool
  rendered_showForgotTooltip :: bool
  inputs :: LoginFormData
  errors :: FieldErrors
  submitted :: bool
  suspended :: nat
  performed :: "effect list"

definition perform_all :: "effect list \<Rightarrow> LoginForm \<Rightarrow> LoginForm" where
  "perform_all es f = (run es f)\<lparr>performed := performed f @ es\<rparr>"

text \<open>
  \<open>handleSubmit(onSubmit)\<close> with the schema resolver: the field values are validated
  against \<open>loginSchema\<close>; with errors, they are stored and \<open>onSubmit\<close> is not called;
  without, \<open>onSubmit\<close> is called with the values and runs up to its suspension point.
  Neither \<open>handleSubmit\<close> nor \<open>onSubmit\<close> looks at \<open>loading\<close> or at a pending call
  before doing so.
\<close>

definition handleSubmit :: "validator \<Rightarrow> LoginForm \<Rightarrow> LoginForm" where
  "handleSubmit validarRUT f =
     (let errs = loginSchema (inputs f) in
      if errs = no_errors then
        (case onSubmit_start validarRUT (inputs f) of
           (es, Returned) \<Rightarrow> perform_all es (f\<lparr>errors := errs\<rparr>)
         | (es, AwaitingLogin) \<Rightarrow>
             (perform_all es (f\<lparr>errors := errs\<rparr>))\<lparr>suspended := Suc (suspended f)\<rparr>)
      else f\<lparr>errors := errs\<rparr>)"

text \<open>A rendering: the page takes over the component state as the setters have left it.\<close>

definition render :: "LoginForm \<Rightarrow> LoginForm" where
  "render f =
     f\<lparr>rendered_showPassword := showPassword f,
       rendered_authError := authError f,
       rendered_loading := loading f,
       rendered_showForgotTooltip := showForgotTooltip f\<rparr>"


text \<open>
  What can happen to the mounted form: the user edits a field, toggles the password
  visibility or activates the submit control, a pending \<open>login\<close> call settles, or the page
  is rendered again. The tooltip of the password-recovery control, driven by a timer, is
  left out.

  \<^item> Editing a field changes its value; once a submission has run to its end, the library
    also validates the field again and replaces its error.
  \<^item> The visibility toggle negates the \<open>showPassword\<close> of the rendering it belongs to.
  \<^item> Activating the submit control does nothing when the control, as rendered, is
    disabled. Otherwise \<open>handleSubmit\<close> runs; the press stands for itself and for what it
    queues (the awaited resolver, then \<open>onSubmit\<close> up to its suspension), all of which
    runs before a press made in a later turn of the event loop. Nothing renders in
    between: a second press before the next rendering meets the control as the first one
    did. The submission has run to its end unless \<open>onSubmit\<close> is suspended.
  \<^item> When a pending call settles, one suspended \<open>onSubmit\<close> resumes and runs to its end.
\<close>

datatype ui_event =
    ChangeUsuario string
  | ChangeClave string
  | ToggleShowPassword
  | PressSubmit
  | LoginSettled outcome
  | Render

fun step :: "validator \<Rightarrow> LoginForm \<Rightarrow> ui_event \<Rightarrow> LoginForm" where
  "step validarRUT f (ChangeUsuario u) =
     (let data = (inputs f)\<lparr>usuario := u\<rparr> in
      f\<lparr>inputs := data,
        errors := (if submitted f
                   then (errors f)\<lparr>usuario_error := usuario_error (loginSchema data)\<rparr>
                   else errors f)\<rparr>)"
| "step validarRUT f (ChangeClave c) =
     (let data = (inputs f)\<lparr>clave := c\<rparr> in
      f\<lparr>inputs := data,
        errors := (if submitted f
                   then (errors f)\<lparr>clave_error := clave_error (loginSchema data)\<rparr>
                   else errors f)\<rparr>)"
| "step validarRUT f ToggleShowPassword = f\<lparr>showPassword := \<not> rendered_showPassword f\<rparr>"
| "step validarRUT f PressSubmit =
     (if disabled (Button (rendered_loading f)) then f
      else let f' = handleSubmit validarRUT f in
           if suspended f' = suspended f then f'\<lparr>submitted := True\<rparr> else f')"
| "step validarRUT f (LoginSettled out) =
     (if suspended f = 0 then f
      else (perform_all (onSubmit_resume out) f)
             \<lparr>suspended := suspended f - 1, submitted := True\<rparr>)"
| "step validarRUT f Render = render f"

text \<open>The form once mounted: the initial \<open>useState\<close> values, and the mount log entry.\<close>

definition initial :: LoginForm where
  "initial =
     \<lparr>showPassword = False, authError = '''', loading = False, showForgotTooltip = False,
      rendered_showPassword = False,
      rendered_authError = '''',
      rendered_loading = False,
      rendered_showForgotTooltip = False,
      inputs = \<lparr>usuario = '''', clave = ''''\<rparr>,
      errors = no_errors,
      submitted = False,
      suspended = 0,
      performed = [Logger Info ''LoginForm'' ''Componente LoginForm montado'' NoPayload]\<rparr>"



section \<open>The seat icon demo (SeatIconDemo)\<close>

datatype status = Available | Occupied | Total

datatype icon_size = sm | md | lg

text \<open>The demo's state (\<open>selectedSeat\<close>) and the lines written to the console.\<close>

record DemoState =
  selectedSeat :: "nat option"
  console :: "string list"

text \<open>Decimal text of a seat number, as the template literal of the log line prints it.\<close>

fun string_of_nat :: "nat \<Rightarrow> string" where
  "string_of_nat n =
     (if n < 10 then [''0123456789'' ! n]
      else string_of_nat (n div 10) @ [''0123456789'' ! (n mod 10)])"

declare string_of_nat.simps [simp del]

definition handleSeatClick :: "nat \<Rightarrow> DemoState \<Rightarrow> DemoState" where
  "handleSeatClick seatNumber s =
     s\<lparr>selectedSeat := Some seatNumber,
       console := console s @ [''Butaca '' @ string_of_nat seatNumber @ '' seleccionada'']\<rparr>"

text \<open>
  The properties the demo passes to a seat icon; a property left out is \<open>None\<close>. A click
  handler is what it does to the demo's state.
\<close>

record SeatIconProps =
  number :: "nat option"
  status :: status
  size_prop :: icon_size
  showNumber :: "bool option"
  onClick :: "(DemoState \<Rightarrow> DemoState) option"
  className :: "string option"

text \<open>The simulated classroom: 5 rows of 6 icons.\<close>

definition classroomGrid :: "SeatIconProps list list" where
  "classroomGrid =
     map (\<lambda>row.
       map (\<lambda>seat.
         let seatNumber = row * 6 + seat + 1;
             isOccupied = seatNumber \<le> 18
         in \<lparr>number = Some seatNumber,
             status = (if isOccupied then Occupied else Available),
             size_prop = md,
             showNumber = None,
             onClick = (if \<not> isOccupied then Some (handleSeatClick seatNumber) else None),
             className = None\<rparr>) [0..<6]) [0..<5]"

text \<open>The simulated online course: 10 rows of 20 icons.\<close>

definition onlineGrid :: "SeatIconProps list list" where
  "onlineGrid =
     map (\<lambda>row.
       map (\<lambda>seat.
         let seatNumber = row * 20 + seat + 1;
             isOccupied = seatNumber \<le> 150
         in \<lparr>number = Some seatNumber,
             status = (if isOccupied then Occupied else Available),
             size_prop = sm,
             showNumber = None,
             onClick = (if \<not> isOccupied then Some (handleSeatClick seatNumber) else None),
             className = None\<rparr>) [0..<20]) [0..<10]"

text \<open>The three icons of the "Sin N\<acute>umeros" group.\<close>

definition noNumberIcons :: "SeatIconProps list" where
  "noNumberIcons =
     [\<lparr>number = None, status = Available, size_prop = md, showNumber = Some False,
       onClick = None, className = None\<rparr>,
      \<lparr>number = None, status = Occupied, size_prop = md, showNumber = Some False,
       onClick = None, className = None\<rparr>,
      \<lparr>number = None, status = Total, size_prop = md, showNumber = Some False,
       onClick = None, className = None\<rparr>]"

text \<open>
  Modelled from the spec: the \<open>SeatIcon\<close> component (\<open>ui/SeatIcon\<close>) is not among the
  source files. The spec describes a seat descriptor with an "optional numeric label"
  and "a boolean for whether to render the number", and says that icons "rendered with
  showNumber=false never display a numeric label regardless of the number value
  supplied". The numeric label an icon displays is therefore its \<open>number\<close> when the number
  is to be rendered, and nothing otherwise; what an omitted \<open>showNumber\<close> means is not
  said, so that default is a parameter.
\<close>

definition SeatIcon_label :: "bool \<Rightarrow> SeatIconProps \<Rightarrow> nat option" where
  "SeatIcon_label showNumber_default props =
     (if (case showNumber props of None \<Rightarrow> showNumber_default | Some b \<Rightarrow> b)
      then number props else None)"

section \<open>Properties of the submit handler\<close>

lemma run_append: "run (es @ fs) s = run fs (run es s)"
  by (simp add: run_def)

lemma onSubmit_start_invalid:
  assumes "validarRUT (usuario data) = (False, mensaje)"
  shows "onSubmit_start validarRUT data =
     ([Logger Info ''LoginForm'' ''Intento de login iniciado'' (UsuarioPayload (usuario data)),
       SetLoading True,
       SetAuthError '''',
       ValidarRUT (usuario data),
       Logger Warn ''LoginForm'' (''RUT inv'' @ [a_acute] @ ''lido'')
         (RutPayload (usuario data) mensaje),
       SetAuthError (''RUT inv'' @ [a_acute] @ ''lido: '' @ mensaje),
       SetLoading False],
      Returned)"
  using assms by (simp add: onSubmit_start_def)

lemma onSubmit_start_valid:
  assumes "validarRUT (usuario data) = (True, mensaje)"
  shows "onSubmit_start validarRUT data =
     ([Logger Info ''LoginForm'' ''Intento de login iniciado'' (UsuarioPayload (usuario data)),
       SetLoading True,
       SetAuthError '''',
       ValidarRUT (usuario data),
       Logger Debug ''LoginForm'' (''Llamando funci'' @ [o_acute] @ ''n login del store'')
         NoPayload,
       Login (usuario data) (clave data)],
      AwaitingLogin)"
  using assms by (simp add: onSubmit_start_def)

text \<open>
  C1. When the validator rejects the submitted username, the handler returns without
  suspending, the banner is the RUT-specific message, and no call of \<open>login\<close> is among the
  effects of the submission, whatever \<open>login\<close> would have answered.
\<close>

theorem invalid_rut_blocks_login:
  assumes "\<not> fst (validarRUT (usuario data))"
  shows "snd (onSubmit_start validarRUT data) = Returned
    \<and> login_calls (onSubmit validarRUT login data) = []
    \<and> (\<forall>u p. Login u p \<notin> set (onSubmit validarRUT login data))
    \<and> banner (run (onSubmit validarRUT login data) s)
        = Some (''RUT inv'' @ [a_acute] @ ''lido: '' @ snd (validarRUT (usuario data)))"
proof -
  obtain mensaje where v: "validarRUT (usuario data) = (False, mensaje)"
    using assms by (cases "validarRUT (usuario data)") auto
  note st = onSubmit_start_invalid [of validarRUT data mensaje, OF v]
  have os: "onSubmit validarRUT login data = fst (onSubmit_start validarRUT data)"
    by (simp add: onSubmit_def st)
  show ?thesis
    by (simp add: os st v login_calls_def run_def banner_def)
qed

theorem invalid_rut_blocks_login_witness:
  "\<not> fst (sample_validarRUT (usuario \<lparr>usuario = ''12345'', clave = ''x''\<rparr>))
   \<and> login_calls (onSubmit sample_validarRUT (\<lambda>u p. Resolves True)
        \<lparr>usuario = ''12345'', clave = ''x''\<rparr>) = []
   \<and> banner (run (onSubmit sample_validarRUT (\<lambda>u p. Resolves True)
        \<lparr>usuario = ''12345'', clave = ''x''\<rparr>)
        \<lparr>showPassword = False, authError = '''', loading = False, showForgotTooltip = False\<rparr>)
      = Some (''RUT inv'' @ [a_acute] @ ''lido: Formato incorrecto'')"
proof -
  have h: "\<not> fst (sample_validarRUT (usuario \<lparr>usuario = ''12345'', clave = ''x''\<rparr>))"
    by (simp add: sample_validarRUT_def)
  show ?thesis
    using h invalid_rut_blocks_login [of sample_validarRUT
        "\<lparr>usuario = ''12345'', clave = ''x''\<rparr>" "\<lambda>u p. Resolves True"
        "\<lparr>showPassword = False, authError = '''', loading = False, showForgotTooltip = False\<rparr>"]
    by (simp add: sample_validarRUT_def)
qed

lemma onSubmit_valid:
  assumes "validarRUT (usuario data) = (True, mensaje)"
  shows "onSubmit validarRUT login data =
     [Logger Info ''LoginForm'' ''Intento de login iniciado'' (UsuarioPayload (usuario data)),
      SetLoading True,
      SetAuthError '''',
      ValidarRUT (usuario data),
      Logger Debug ''LoginForm'' (''Llamando funci'' @ [o_acute] @ ''n login del store'')
        NoPayload,
      Login (usuario data) (clave data)]
     @ onSubmit_resume (login (usuario data) (clave data))"
  by (simp add: onSubmit_def onSubmit_start_valid [of validarRUT data mensaje, OF assms])

lemma login_calls_resume: "login_calls (onSubmit_resume out) = []"
  by (cases out) (simp_all add: login_calls_def onSubmit_resume_def)

lemma login_calls_append: "login_calls (es @ fs) = login_calls es @ login_calls fs"
  by (simp add: login_calls_def)

text \<open>
  C3. When the validator accepts the username, the effects of one submission contain
  exactly one call of \<open>login\<close>, with the two field values of the payload unchanged; the
  call is made before the handler suspends, and nothing after the suspension calls
  \<open>login\<close> again.
\<close>

theorem valid_rut_calls_login_once:
  assumes "fst (validarRUT (usuario data))"
  shows "snd (onSubmit_start validarRUT data) = AwaitingLogin
    \<and> login_calls (fst (onSubmit_start validarRUT data)) = [Login (usuario data) (clave data)]
    \<and> login_calls (onSubmit_resume out) = []
    \<and> login_calls (onSubmit validarRUT login data) = [Login (usuario data) (clave data)]"
proof -
  obtain mensaje where v: "validarRUT (usuario data) = (True, mensaje)"
    using assms by (cases "validarRUT (usuario data)") auto
  note st = onSubmit_start_valid [of validarRUT data mensaje, OF v]
  note os = onSubmit_valid [of validarRUT data mensaje login, OF v]
  have a: "login_calls (fst (onSubmit_start validarRUT data)) = [Login (usuario data) (clave data)]"
    by (simp add: st login_calls_def)
  have b: "login_calls (onSubmit validarRUT login data) = [Login (usuario data) (clave data)]"
    unfolding os login_calls_append login_calls_resume by (simp add: login_calls_def)
  show ?thesis
    using a b by (simp add: st login_calls_resume)
qed

theorem valid_rut_calls_login_once_witness:
  "fst (sample_validarRUT (usuario \<lparr>usuario = ''11.111.111-1'', clave = ''admin''\<rparr>))
   \<and> login_calls (onSubmit sample_validarRUT (\<lambda>u p. Throws ''network'')
        \<lparr>usuario = ''11.111.111-1'', clave = ''admin''\<rparr>)
      = [Login ''11.111.111-1'' ''admin'']"
proof -
  have h: "fst (sample_validarRUT (usuario \<lparr>usuario = ''11.111.111-1'', clave = ''admin''\<rparr>))"
    by (simp add: sample_validarRUT_def)
  show ?thesis
    using h valid_rut_calls_login_once [of sample_validarRUT
        "\<lparr>usuario = ''11.111.111-1'', clave = ''admin''\<rparr>" "Throws ''network''"
        "\<lambda>u p. Throws ''network''"]
    by simp
qed

lemma run_resume_authError:
  "authError (run (onSubmit_resume out) s) =
     (case out of
        Resolves success \<Rightarrow> if success then authError s else ''Usuario o clave incorrectos''
      | Throws e \<Rightarrow> ''Error al iniciar sesi'' @ [o_acute] @ ''n'')"
  by (cases out) (simp_all add: onSubmit_resume_def run_def)

lemma run_start_valid_authError:
  assumes "validarRUT (usuario data) = (True, mensaje)"
  shows "authError (run (fst (onSubmit_start validarRUT data)) s) = ''''"
  by (simp add: onSubmit_start_valid [of validarRUT data mensaje, OF assms] run_def)

lemma run_onSubmit_valid_authError:
  assumes "validarRUT (usuario data) = (True, mensaje)"
  shows "authError (run (onSubmit validarRUT login data) s) =
     (case login (usuario data) (clave data) of
        Resolves success \<Rightarrow> if success then '''' else ''Usuario o clave incorrectos''
      | Throws e \<Rightarrow> ''Error al iniciar sesi'' @ [o_acute] @ ''n'')"
proof -
  have "onSubmit validarRUT login data =
      fst (onSubmit_start validarRUT data) @ onSubmit_resume (login (usuario data) (clave data))"
    by (simp add: onSubmit_def onSubmit_start_valid [of validarRUT data mensaje, OF assms])
  then show ?thesis
    by (simp add: run_append run_resume_authError
        run_start_valid_authError [of validarRUT data mensaje, OF assms]
        split: outcome.splits)
qed

text \<open>
  C4. For a submission that reaches the authentication call: when \<open>login\<close> resolves to
  true no banner is shown; when it resolves to false the banner is the
  incorrect-credentials message; when it throws, the handler still completes and the
  banner is the generic message.
\<close>

theorem banner_after_login:
  assumes "fst (validarRUT (usuario data))"
  shows "(login (usuario data) (clave data) = Resolves True \<longrightarrow>
            banner (run (onSubmit validarRUT login data) s) = None)
    \<and> (login (usuario data) (clave data) = Resolves False \<longrightarrow>
            banner (run (onSubmit validarRUT login data) s) = Some ''Usuario o clave incorrectos'')
    \<and> (\<forall>e. login (usuario data) (clave data) = Throws e \<longrightarrow>
            banner (run (onSubmit validarRUT login data) s)
              = Some (''Error al iniciar sesi'' @ [o_acute] @ ''n''))"
proof -
  obtain mensaje where v: "validarRUT (usuario data) = (True, mensaje)"
    using assms by (cases "validarRUT (usuario data)") auto
  note ae = run_onSubmit_valid_authError [of validarRUT data mensaje login s, OF v]
  show ?thesis
    by (simp add: banner_def ae)
qed

theorem banner_after_login_witness:
  "fst (sample_validarRUT (usuario \<lparr>usuario = ''11.111.111-1'', clave = ''admin''\<rparr>))
   \<and> banner (run (onSubmit sample_validarRUT (\<lambda>u p. Resolves True)
        \<lparr>usuario = ''11.111.111-1'', clave = ''admin''\<rparr>)
        \<lparr>showPassword = False, authError = ''stale'', loading = False,
          showForgotTooltip = False\<rparr>) = None
   \<and> banner (run (onSubmit sample_validarRUT (\<lambda>u p. Resolves False)
        \<lparr>usuario = ''11.111.111-1'', clave = ''admin''\<rparr>)
        \<lparr>showPassword = False, authError = '''', loading = False,
          showForgotTooltip = False\<rparr>) = Some ''Usuario o clave incorrectos''
   \<and> banner (run (onSubmit sample_validarRUT (\<lambda>u p. Throws ''network'')
        \<lparr>usuario = ''11.111.111-1'', clave = ''admin''\<rparr>)
        \<lparr>showPassword = False, authError = '''', loading = False,
          showForgotTooltip = False\<rparr>) = Some (''Error al iniciar sesi'' @ [o_acute] @ ''n'')"
proof -
  have h: "fst (sample_validarRUT (usuario \<lparr>usuario = ''11.111.111-1'', clave = ''admin''\<rparr>))"
    by (simp add: sample_validarRUT_def)
  show ?thesis
    using h
      banner_after_login [of sample_validarRUT
        "\<lparr>usuario = ''11.111.111-1'', clave = ''admin''\<rparr>" "\<lambda>u p. Resolves True"
        "\<lparr>showPassword = False, authError = ''stale'', loading = False,
          showForgotTooltip = False\<rparr>"]
      banner_after_login [of sample_validarRUT
        "\<lparr>usuario = ''11.111.111-1'', clave = ''admin''\<rparr>" "\<lambda>u p. Resolves False"
        "\<lparr>showPassword = False, authError = '''', loading = False,
          showForgotTooltip = False\<rparr>"]
      banner_after_login [of sample_validarRUT
        "\<lparr>usuario = ''11.111.111-1'', clave = ''admin''\<rparr>" "\<lambda>u p. Throws ''network''"
        "\<lparr>showPassword = False, authError = '''', loading = False,
          showForgotTooltip = False\<rparr>"]
    by simp
qed

lemma onSubmit_prologue:
  "take 4 (onSubmit validarRUT login data) =
     [Logger Info ''LoginForm'' ''Intento de login iniciado'' (UsuarioPayload (usuario data)),
      SetLoading True,
      SetAuthError '''',
      ValidarRUT (usuario data)]"
  by (cases "validarRUT (usuario data)") (simp add: onSubmit_def onSubmit_start_def Let_def)

lemma run_onSubmit_invalid_authError:
  assumes "validarRUT (usuario data) = (False, mensaje)"
  shows "authError (run (onSubmit validarRUT login data) s)
     = ''RUT inv'' @ [a_acute] @ ''lido: '' @ mensaje"
  by (simp add: onSubmit_def run_def
      onSubmit_start_invalid [of validarRUT data mensaje, OF assms])

text \<open>
  C10. Every run of the handler begins with the log entry, \<open>setLoading(true)\<close> and
  \<open>setAuthError('')\<close>, and only then calls the validator: whatever the state before, the
  state in which the validator runs has \<open>loading\<close> true and an empty banner text, and
  none of these first effects is a validator or \<open>login\<close> call. Hence, from any earlier
  state (a stale banner included), a submission that is accepted and whose \<open>login\<close>
  resolves to true ends with no banner; and on a RUT failure the banner text is exactly
  \<open>RUT inv\<acute>alido:\<close> and a space followed by the validator's message.
\<close>

theorem handler_resets_banner_first:
  "take 4 (onSubmit validarRUT login data) =
     [Logger Info ''LoginForm'' ''Intento de login iniciado'' (UsuarioPayload (usuario data)),
      SetLoading True,
      SetAuthError '''',
      ValidarRUT (usuario data)]
   \<and> authError (run (take 3 (onSubmit validarRUT login data)) s) = ''''
   \<and> loading (run (take 3 (onSubmit validarRUT login data)) s)
   \<and> (fst (validarRUT (usuario data)) \<and> login (usuario data) (clave data) = Resolves True
        \<longrightarrow> banner (run (onSubmit validarRUT login data) s) = None)
   \<and> (\<not> fst (validarRUT (usuario data))
        \<longrightarrow> authError (run (onSubmit validarRUT login data) s)
              = ''RUT inv'' @ [a_acute] @ ''lido: '' @ snd (validarRUT (usuario data))
          \<and> banner (run (onSubmit validarRUT login data) s)
              = Some (''RUT inv'' @ [a_acute] @ ''lido: '' @ snd (validarRUT (usuario data))))"
proof -
  obtain valido mensaje where v: "validarRUT (usuario data) = (valido, mensaje)"
    by (cases "validarRUT (usuario data)")
  have p4: "take 4 (onSubmit validarRUT login data) =
     [Logger Info ''LoginForm'' ''Intento de login iniciado'' (UsuarioPayload (usuario data)),
      SetLoading True,
      SetAuthError '''',
      ValidarRUT (usuario data)]"
    by (rule onSubmit_prologue)
  have "take 3 (take 4 (onSubmit validarRUT login data)) =
     [Logger Info ''LoginForm'' ''Intento de login iniciado'' (UsuarioPayload (usuario data)),
      SetLoading True,
      SetAuthError '''']"
    unfolding p4 by simp
  then have p3: "take 3 (onSubmit validarRUT login data) =
     [Logger Info ''LoginForm'' ''Intento de login iniciado'' (UsuarioPayload (usuario data)),
      SetLoading True,
      SetAuthError '''']"
    by simp
  have a: "authError (run (take 3 (onSubmit validarRUT login data)) s) = ''''"
    unfolding p3 by (simp add: run_def)
  have l: "loading (run (take 3 (onSubmit validarRUT login data)) s)"
    unfolding p3 by (simp add: run_def)
  show ?thesis
  proof (cases valido)
    case True
    with v have v': "validarRUT (usuario data) = (True, mensaje)" by simp
    note ae = run_onSubmit_valid_authError [of validarRUT data mensaje login s, OF v']
    show ?thesis
      using p4 a l by (simp add: v' banner_def ae)
  next
    case False
    with v have v': "validarRUT (usuario data) = (False, mensaje)" by simp
    note ae = run_onSubmit_invalid_authError [of validarRUT data mensaje login s, OF v']
    show ?thesis
      using p4 a l by (simp add: v' banner_def ae)
  qed
qed

theorem handler_resets_banner_first_witness:
  "(fst (sample_validarRUT (usuario \<lparr>usuario = ''11.111.111-1'', clave = ''admin''\<rparr>))
     \<and> (\<lambda>u p. Resolves True) (usuario \<lparr>usuario = ''11.111.111-1'', clave = ''admin''\<rparr>)
          (clave \<lparr>usuario = ''11.111.111-1'', clave = ''admin''\<rparr>) = Resolves True)
   \<and> banner (run (onSubmit sample_validarRUT (\<lambda>u p. Resolves True)
        \<lparr>usuario = ''11.111.111-1'', clave = ''admin''\<rparr>)
        \<lparr>showPassword = False, authError = ''Usuario o clave incorrectos'', loading = False,
          showForgotTooltip = False\<rparr>) = None
   \<and> \<not> fst (sample_validarRUT (usuario \<lparr>usuario = ''abc'', clave = ''admin''\<rparr>))
   \<and> banner (run (onSubmit sample_validarRUT (\<lambda>u p. Resolves True)
        \<lparr>usuario = ''abc'', clave = ''admin''\<rparr>)
        \<lparr>showPassword = False, authError = ''Usuario o clave incorrectos'', loading = False,
          showForgotTooltip = False\<rparr>)
      = Some (''RUT inv'' @ [a_acute] @ ''lido: Formato incorrecto'')"
proof -
  have h1: "fst (sample_validarRUT (usuario \<lparr>usuario = ''11.111.111-1'', clave = ''admin''\<rparr>))"
    by (simp add: sample_validarRUT_def)
  have h2: "\<not> fst (sample_validarRUT (usuario \<lparr>usuario = ''abc'', clave = ''admin''\<rparr>))"
    by (simp add: sample_validarRUT_def)
  have m: "snd (sample_validarRUT ''abc'') = ''Formato incorrecto''"
    by (simp add: sample_validarRUT_def)
  show ?thesis
    using h1 h2 m
      handler_resets_banner_first [of sample_validarRUT "\<lambda>u p. Resolves True"
        "\<lparr>usuario = ''11.111.111-1'', clave = ''admin''\<rparr>"
        "\<lparr>showPassword = False, authError = ''Usuario o clave incorrectos'', loading = False,
          showForgotTooltip = False\<rparr>"]
      handler_resets_banner_first [of sample_validarRUT "\<lambda>u p. Resolves True"
        "\<lparr>usuario = ''abc'', clave = ''admin''\<rparr>"
        "\<lparr>showPassword = False, authError = ''Usuario o clave incorrectos'', loading = False,
          showForgotTooltip = False\<rparr>"]
    by simp
qed

section \<open>Properties of the form as a whole\<close>

lemma loginSchema_no_errors:
  "loginSchema d = no_errors \<longleftrightarrow> usuario d \<noteq> '''' \<and> clave d \<noteq> ''''"
  by (auto simp: loginSchema_def no_errors_def z_string_min_def)

lemma handleSubmit_schema_errors:
  assumes "loginSchema (inputs f) \<noteq> no_errors"
  shows "handleSubmit validarRUT f = f\<lparr>errors := loginSchema (inputs f)\<rparr>"
  using assms by (simp add: handleSubmit_def Let_def)




text \<open>
  C2. When the username or the password of the form is the empty string, a submission
  stores the schema's errors and does nothing else: the empty field carries its own
  message (\<open>Usuario requerido\<close>, \<open>Clave requerida\<close>), the handler is not run, so no effect
  is performed, \<open>login\<close> is not called and nothing is pending.
\<close>

theorem empty_field_blocks_submission:
  assumes "usuario (inputs f) = '''' \<or> clave (inputs f) = ''''"
  shows "handleSubmit validarRUT f = f\<lparr>errors := loginSchema (inputs f)\<rparr>
    \<and> performed (handleSubmit validarRUT f) = performed f
    \<and> login_calls (performed (handleSubmit validarRUT f)) = login_calls (performed f)
    \<and> suspended (handleSubmit validarRUT f) = suspended f
    \<and> (usuario (inputs f) = '''' \<longrightarrow>
          usuario_error (errors (handleSubmit validarRUT f)) = Some ''Usuario requerido'')
    \<and> (clave (inputs f) = '''' \<longrightarrow>
          clave_error (errors (handleSubmit validarRUT f)) = Some ''Clave requerida'')
    \<and> (usuario (inputs f) \<noteq> '''' \<longrightarrow> usuario_error (errors (handleSubmit validarRUT f)) = None)
    \<and> (clave (inputs f) \<noteq> '''' \<longrightarrow> clave_error (errors (handleSubmit validarRUT f)) = None)"
proof -
  have "loginSchema (inputs f) \<noteq> no_errors"
    using assms by (simp add: loginSchema_no_errors)
  then have hs: "handleSubmit validarRUT f = f\<lparr>errors := loginSchema (inputs f)\<rparr>"
    by (rule handleSubmit_schema_errors)
  show ?thesis
    unfolding hs by (simp add: loginSchema_def z_string_min_def)
qed

theorem empty_field_blocks_submission_witness:
  "(usuario (inputs (step sample_validarRUT initial (ChangeUsuario ''11.111.111-1''))) = ''''
     \<or> clave (inputs (step sample_validarRUT initial (ChangeUsuario ''11.111.111-1''))) = '''')
   \<and> clave_error (errors (handleSubmit sample_validarRUT
        (step sample_validarRUT initial (ChangeUsuario ''11.111.111-1'')))) = Some ''Clave requerida''
   \<and> usuario_error (errors (handleSubmit sample_validarRUT
        (step sample_validarRUT initial (ChangeUsuario ''11.111.111-1'')))) = None
   \<and> login_calls (performed (handleSubmit sample_validarRUT
        (step sample_validarRUT initial (ChangeUsuario ''11.111.111-1'')))) = []
   \<and> usuario_error (errors (handleSubmit sample_validarRUT initial)) = Some ''Usuario requerido''
   \<and> clave_error (errors (handleSubmit sample_validarRUT initial)) = Some ''Clave requerida''"
proof -
  have h: "usuario (inputs (step sample_validarRUT initial (ChangeUsuario ''11.111.111-1''))) = ''''
     \<or> clave (inputs (step sample_validarRUT initial (ChangeUsuario ''11.111.111-1''))) = ''''"
    by (simp add: initial_def)
  have h0: "usuario (inputs initial) = '''' \<or> clave (inputs initial) = ''''"
    by (simp add: initial_def)
  show ?thesis
    using h
      empty_field_blocks_submission [of "step sample_validarRUT initial (ChangeUsuario ''11.111.111-1'')"
        sample_validarRUT, OF h, THEN conjunct2]
      empty_field_blocks_submission [of initial sample_validarRUT, OF h0, THEN conjunct2]
    by (simp add: initial_def login_calls_def)
qed




















section \<open>Properties of the seat icon demo\<close>

lemma string_of_nat_digit: "n < 10 \<Longrightarrow> string_of_nat n = [''0123456789'' ! n]"
  by (simp add: string_of_nat.simps)

lemma string_of_nat_more:
  "\<not> n < 10 \<Longrightarrow> string_of_nat n = string_of_nat (n div 10) @ [''0123456789'' ! (n mod 10)]"
  by (subst string_of_nat.simps) simp

lemma concat_rows:
  "concat (map (\<lambda>row. map (\<lambda>seat. g (row * k + seat)) [0..<k]) [0..<m]) = map g [0..<m * k]"
proof (induction m)
  case 0
  show ?case by simp
next
  case (Suc m)
  have "map (\<lambda>seat. g (m * k + seat)) [0..<k] = map g (map (\<lambda>seat. m * k + seat) [0..<k])"
    by simp
  also have "map (\<lambda>seat. m * k + seat) [0..<k] = [m * k..<m * k + k]"
    by (simp add: map_add_upt add.commute)
  finally have row: "map (\<lambda>seat. g (m * k + seat)) [0..<k] = map g [m * k..<m * k + k]" .
  have "[0..<Suc m * k] = [0..<m * k] @ [m * k..<m * k + k]"
    using upt_add_eq_append [of 0 "m * k" k] by (simp add: add.commute)
  then show ?case
    using Suc row by simp
qed

lemma handleSeatClick_records: "selectedSeat (handleSeatClick n s) = Some n"
  by (simp add: handleSeatClick_def)

lemma classroomGrid_nth:
  assumes "row < 5" and "seat < 6"
  shows "classroomGrid ! row ! seat =
     \<lparr>number = Some (row * 6 + seat + 1),
      status = (if row * 6 + seat + 1 \<le> 18 then Occupied else Available),
      size_prop = md,
      showNumber = None,
      onClick = (if \<not> row * 6 + seat + 1 \<le> 18
                 then Some (handleSeatClick (row * 6 + seat + 1)) else None),
      className = None\<rparr>"
  using assms by (simp add: classroomGrid_def Let_def)

lemma classroomGrid_flat:
  "concat classroomGrid =
     map (\<lambda>i. \<lparr>number = Some (i + 1),
               status = (if i + 1 \<le> 18 then Occupied else Available),
               size_prop = md,
               showNumber = None,
               onClick = (if \<not> i + 1 \<le> 18 then Some (handleSeatClick (i + 1)) else None),
               className = None\<rparr>) [0..<30]"
proof -
  define g where "g = (\<lambda>i. \<lparr>number = Some (i + 1),
               status = (if i + 1 \<le> 18 then Occupied else Available),
               size_prop = md,
               showNumber = None,
               onClick = (if \<not> i + 1 \<le> 18 then Some (handleSeatClick (i + 1)) else None),
               className = None\<rparr>)"
  have eq: "classroomGrid = map (\<lambda>row. map (\<lambda>seat. g (row * 6 + seat)) [0..<6]) [0..<5]"
    by (simp add: classroomGrid_def Let_def g_def)
  have "concat classroomGrid = map g [0..<5 * 6]"
    unfolding eq by (rule concat_rows)
  then show ?thesis
    by (simp add: g_def)
qed

lemma classroomGrid_member:
  assumes "row < 5" and "seat < 6"
  shows "classroomGrid ! row ! seat \<in> set (concat classroomGrid)"
proof -
  have r: "classroomGrid ! row \<in> set classroomGrid"
    by (rule nth_mem) (simp add: classroomGrid_def assms)
  have "classroomGrid ! row ! seat \<in> set (classroomGrid ! row)"
    by (rule nth_mem) (simp add: classroomGrid_def assms)
  with r show ?thesis by auto
qed

text \<open>
  C6. The classroom grid has 5 rows of 6 icons; the icon at row \<open>row\<close>, position \<open>seat\<close>
  carries the number \<open>row * 6 + seat + 1\<close>, so that the numbers, row after row, are 1 to
  30. Every icon numbered 1 to 18 has status occupied and no click handler; every icon
  numbered 19 to 30 has status available and the click handler \<open>handleSeatClick\<close> of its
  own number, which records that number as the selected seat.
\<close>

theorem classroom_seats:
  "length classroomGrid = 5
   \<and> (\<forall>r \<in> set classroomGrid. length r = 6)
   \<and> (\<forall>row < 5. \<forall>seat < 6. number (classroomGrid ! row ! seat) = Some (row * 6 + seat + 1))
   \<and> map number (concat classroomGrid) = map Some [1..<31]
   \<and> (\<forall>p \<in> set (concat classroomGrid). \<exists>n. number p = Some n \<and> 1 \<le> n \<and> n \<le> 30
        \<and> (n \<le> 18 \<longrightarrow> status p = Occupied \<and> onClick p = None)
        \<and> (19 \<le> n \<longrightarrow> status p = Available \<and> onClick p = Some (handleSeatClick n)))
   \<and> (\<forall>n s. selectedSeat (handleSeatClick n s) = Some n)"
proof -
  have len: "length classroomGrid = 5"
    by (simp add: classroomGrid_def)
  have rows: "\<forall>r \<in> set classroomGrid. length r = 6"
    by (auto simp: classroomGrid_def)
  have nums: "\<forall>row < 5. \<forall>seat < 6.
      number (classroomGrid ! row ! seat) = Some (row * 6 + seat + 1)"
    by (simp add: classroomGrid_nth)
  have "map number (concat classroomGrid) = map (\<lambda>i. Some (Suc i)) [0..<30]"
    by (simp add: classroomGrid_flat)
  also have "\<dots> = map Some (map Suc [0..<30])"
    by simp
  also have "map Suc [0..<30] = [1..<31]"
    by (simp only: map_Suc_upt) simp
  finally have order: "map number (concat classroomGrid) = map Some [1..<31]" .
  have each: "\<forall>p \<in> set (concat classroomGrid). \<exists>n. number p = Some n \<and> 1 \<le> n \<and> n \<le> 30
        \<and> (n \<le> 18 \<longrightarrow> status p = Occupied \<and> onClick p = None)
        \<and> (19 \<le> n \<longrightarrow> status p = Available \<and> onClick p = Some (handleSeatClick n))"
    unfolding classroomGrid_flat by auto
  show ?thesis
    using len rows nums order each handleSeatClick_records by blast
qed

theorem classroom_seats_witness:
  "(2::nat) < 5 \<and> (5::nat) < 6 \<and> (3::nat) < 5 \<and> (0::nat) < 6
   \<and> classroomGrid ! 2 ! 5 \<in> set (concat classroomGrid)
   \<and> classroomGrid ! 3 ! 0 \<in> set (concat classroomGrid)
   \<and> number (classroomGrid ! 2 ! 5) = Some 18
   \<and> status (classroomGrid ! 2 ! 5) = Occupied
   \<and> onClick (classroomGrid ! 2 ! 5) = None
   \<and> number (classroomGrid ! 3 ! 0) = Some 19
   \<and> status (classroomGrid ! 3 ! 0) = Available
   \<and> onClick (classroomGrid ! 3 ! 0) = Some (handleSeatClick 19)
   \<and> handleSeatClick 19 \<lparr>selectedSeat = None, console = []\<rparr>
      = \<lparr>selectedSeat = Some 19, console = [''Butaca 19 seleccionada'']\<rparr>"
proof -
  have m1: "classroomGrid ! 2 ! 5 \<in> set (concat classroomGrid)"
    by (rule classroomGrid_member) simp_all
  have m2: "classroomGrid ! 3 ! 0 \<in> set (concat classroomGrid)"
    by (rule classroomGrid_member) simp_all
  from classroom_seats have n1: "number (classroomGrid ! 2 ! 5) = Some (2 * 6 + 5 + 1)"
    by simp
  from classroom_seats have n2: "number (classroomGrid ! 3 ! 0) = Some (3 * 6 + 0 + 1)"
    by simp
  from classroom_seats m1 obtain a where a: "number (classroomGrid ! 2 ! 5) = Some a"
      "a \<le> 18 \<longrightarrow> status (classroomGrid ! 2 ! 5) = Occupied \<and> onClick (classroomGrid ! 2 ! 5) = None"
    by blast
  from classroom_seats m2 obtain b where b: "number (classroomGrid ! 3 ! 0) = Some b"
      "19 \<le> b \<longrightarrow> status (classroomGrid ! 3 ! 0) = Available
        \<and> onClick (classroomGrid ! 3 ! 0) = Some (handleSeatClick b)"
    by blast
  from a n1 have a18: "a = 18" by simp
  from b n2 have b19: "b = 19" by simp
  have click: "handleSeatClick 19 \<lparr>selectedSeat = None, console = []\<rparr>
      = \<lparr>selectedSeat = Some 19, console = [''Butaca 19 seleccionada'']\<rparr>"
    by (simp add: handleSeatClick_def string_of_nat_digit string_of_nat_more)
  show ?thesis
    using m1 m2 n1 n2 a b a18 b19 click by simp
qed

lemma onlineGrid_nth:
  assumes "row < 10" and "seat < 20"
  shows "onlineGrid ! row ! seat =
     \<lparr>number = Some (row * 20 + seat + 1),
      status = (if row * 20 + seat + 1 \<le> 150 then Occupied else Available),
      size_prop = sm,
      showNumber = None,
      onClick = (if \<not> row * 20 + seat + 1 \<le> 150
                 then Some (handleSeatClick (row * 20 + seat + 1)) else None),
      className = None\<rparr>"
  using assms by (simp add: onlineGrid_def Let_def)

lemma onlineGrid_flat:
  "concat onlineGrid =
     map (\<lambda>i. \<lparr>number = Some (i + 1),
               status = (if i + 1 \<le> 150 then Occupied else Available),
               size_prop = sm,
               showNumber = None,
               onClick = (if \<not> i + 1 \<le> 150 then Some (handleSeatClick (i + 1)) else None),
               className = None\<rparr>) [0..<200]"
proof -
  define g where "g = (\<lambda>i. \<lparr>number = Some (i + 1),
               status = (if i + 1 \<le> 150 then Occupied else Available),
               size_prop = sm,
               showNumber = None,
               onClick = (if \<not> i + 1 \<le> 150 then Some (handleSeatClick (i + 1)) else None),
               className = None\<rparr>)"
  have eq: "onlineGrid = map (\<lambda>row. map (\<lambda>seat. g (row * 20 + seat)) [0..<20]) [0..<10]"
    by (simp add: onlineGrid_def Let_def g_def)
  have "concat onlineGrid = map g [0..<10 * 20]"
    unfolding eq by (rule concat_rows)
  then show ?thesis
    by (simp add: g_def)
qed

lemma onlineGrid_member:
  assumes "row < 10" and "seat < 20"
  shows "onlineGrid ! row ! seat \<in> set (concat onlineGrid)"
proof -
  have r: "onlineGrid ! row \<in> set onlineGrid"
    by (rule nth_mem) (simp add: onlineGrid_def assms)
  have "onlineGrid ! row ! seat \<in> set (onlineGrid ! row)"
    by (rule nth_mem) (simp add: onlineGrid_def assms)
  with r show ?thesis by auto
qed

text \<open>
  C9. The online-course grid has 10 rows of 20 icons; the icon at row \<open>row\<close>, position
  \<open>seat\<close> carries the number \<open>row * 20 + seat + 1\<close>, so that the numbers, row after
  row, are 1 to 200. Every icon numbered 1 to 150 has status occupied and no click
  handler; every icon numbered 151 to 200 has status available and the click handler
  \<open>handleSeatClick\<close> of its own number.
\<close>

theorem online_seats:
  "length onlineGrid = 10
   \<and> (\<forall>r \<in> set onlineGrid. length r = 20)
   \<and> (\<forall>row < 10. \<forall>seat < 20. number (onlineGrid ! row ! seat) = Some (row * 20 + seat + 1))
   \<and> map number (concat onlineGrid) = map Some [1..<201]
   \<and> (\<forall>p \<in> set (concat onlineGrid). \<exists>n. number p = Some n \<and> 1 \<le> n \<and> n \<le> 200
        \<and> (n \<le> 150 \<longrightarrow> status p = Occupied \<and> onClick p = None)
        \<and> (151 \<le> n \<longrightarrow> status p = Available \<and> onClick p = Some (handleSeatClick n)))
   \<and> (\<forall>n s. selectedSeat (handleSeatClick n s) = Some n)"
proof -
  have len: "length onlineGrid = 10"
    by (simp add: onlineGrid_def)
  have rows: "\<forall>r \<in> set onlineGrid. length r = 20"
    by (auto simp: onlineGrid_def)
  have nums: "\<forall>row < 10. \<forall>seat < 20.
      number (onlineGrid ! row ! seat) = Some (row * 20 + seat + 1)"
    by (simp add: onlineGrid_nth)
  have "map number (concat onlineGrid) = map (\<lambda>i. Some (Suc i)) [0..<200]"
    by (simp add: onlineGrid_flat)
  also have "\<dots> = map Some (map Suc [0..<200])"
    by simp
  also have "map Suc [0..<200] = [1..<201]"
    by (simp only: map_Suc_upt) simp
  finally have order: "map number (concat onlineGrid) = map Some [1..<201]" .
  have each: "\<forall>p \<in> set (concat onlineGrid). \<exists>n. number p = Some n \<and> 1 \<le> n \<and> n \<le> 200
        \<and> (n \<le> 150 \<longrightarrow> status p = Occupied \<and> onClick p = None)
        \<and> (151 \<le> n \<longrightarrow> status p = Available \<and> onClick p = Some (handleSeatClick n))"
    unfolding onlineGrid_flat by auto
  show ?thesis
    using len rows nums order each handleSeatClick_records by blast
qed

theorem online_seats_witness:
  "(7::nat) < 10 \<and> (9::nat) < 20 \<and> (7::nat) < 10 \<and> (10::nat) < 20
   \<and> onlineGrid ! 7 ! 9 \<in> set (concat onlineGrid)
   \<and> onlineGrid ! 7 ! 10 \<in> set (concat onlineGrid)
   \<and> number (onlineGrid ! 7 ! 9) = Some 150
   \<and> status (onlineGrid ! 7 ! 9) = Occupied
   \<and> onClick (onlineGrid ! 7 ! 9) = None
   \<and> number (onlineGrid ! 7 ! 10) = Some 151
   \<and> status (onlineGrid ! 7 ! 10) = Available
   \<and> onClick (onlineGrid ! 7 ! 10) = Some (handleSeatClick 151)
   \<and> handleSeatClick 151 \<lparr>selectedSeat = None, console = []\<rparr>
      = \<lparr>selectedSeat = Some 151, console = [''Butaca 151 seleccionada'']\<rparr>"
proof -
  have m1: "onlineGrid ! 7 ! 9 \<in> set (concat onlineGrid)"
    by (rule onlineGrid_member) simp_all
  have m2: "onlineGrid ! 7 ! 10 \<in> set (concat onlineGrid)"
    by (rule onlineGrid_member) simp_all
  from online_seats have n1: "number (onlineGrid ! 7 ! 9) = Some (7 * 20 + 9 + 1)"
    by simp
  from online_seats have n2: "number (onlineGrid ! 7 ! 10) = Some (7 * 20 + 10 + 1)"
    by simp
  from online_seats m1 obtain a where a: "number (onlineGrid ! 7 ! 9) = Some a"
      "a \<le> 150 \<longrightarrow> status (onlineGrid ! 7 ! 9) = Occupied \<and> onClick (onlineGrid ! 7 ! 9) = None"
    by blast
  from online_seats m2 obtain b where b: "number (onlineGrid ! 7 ! 10) = Some b"
      "151 \<le> b \<longrightarrow> status (onlineGrid ! 7 ! 10) = Available
        \<and> onClick (onlineGrid ! 7 ! 10) = Some (handleSeatClick b)"
    by blast
  from a n1 have a150: "a = 150" by simp
  from b n2 have b151: "b = 151" by simp
  have click: "handleSeatClick 151 \<lparr>selectedSeat = None, console = []\<rparr>
      = \<lparr>selectedSeat = Some 151, console = [''Butaca 151 seleccionada'']\<rparr>"
    by (simp add: handleSeatClick_def string_of_nat_digit string_of_nat_more)
  show ?thesis
    using m1 m2 n1 n2 a b a150 b151 click by simp
qed

text \<open>
  C7. Whatever its other properties, the number included, an icon whose \<open>showNumber\<close> is
  false displays no numeric label; the three icons of the demo's group without numbers
  are such icons.
\<close>

theorem hidden_number_shows_no_label:
  "(showNumber props = Some False \<longrightarrow> SeatIcon_label showNumber_default props = None)
   \<and> (\<forall>p \<in> set noNumberIcons.
        showNumber p = Some False \<and> SeatIcon_label showNumber_default p = None)"
  by (simp add: SeatIcon_label_def noNumberIcons_def)

theorem hidden_number_shows_no_label_witness:
  "showNumber \<lparr>number = Some 42, status = Available, size_prop = lg, showNumber = Some False,
      onClick = None, className = None\<rparr> = Some False
   \<and> SeatIcon_label True
        \<lparr>number = Some 42, status = Available, size_prop = lg, showNumber = Some False,
         onClick = None, className = None\<rparr> = None
   \<and> \<lparr>number = None, status = Total, size_prop = md, showNumber = Some False,
        onClick = None, className = None\<rparr> \<in> set noNumberIcons
   \<and> SeatIcon_label True
        \<lparr>number = None, status = Total, size_prop = md, showNumber = Some False,
         onClick = None, className = None\<rparr> = None"
proof -
  have m: "\<lparr>number = None, status = Total, size_prop = md, showNumber = Some False,
        onClick = None, className = None\<rparr> \<in> set noNumberIcons"
    by (simp add: noNumberIcons_def)
  from hidden_number_shows_no_label [of
      "\<lparr>number = Some 42, status = Available, size_prop = lg, showNumber = Some False,
        onClick = None, className = None\<rparr>" True] m
  show ?thesis by simp
qed

end
